theory Spec2Isabelle
  imports Complex_Main "HOL-Library.Multiset"
begin

section \<open>Common data\<close>

text \<open>
  Instants (Python \<open>datetime\<close> values) are integers counting seconds; a
  \<open>timedelta\<close> is a difference of instants. ISO strings produced by
  \<open>isoformat()\<close> and read back by \<open>date_parser.parse\<close> denote the same instant,
  so a slot carries the instants themselves. Python floats are modelled by exact
  real numbers.
\<close>

type_synonym instant = int
type_synonym user_id = string
type_synonym timezone = string
type_synonym time_range = "instant \<times> instant"

datatype error = ValueError string | ApiError string

record slot =
  start_time :: instant
  end_time :: instant
  duration_minutes :: int

text \<open>A Python \<open>dict\<close> with insertion order: assigning to a key that is present
  keeps the key's position.\<close>

fun dict_set :: "('k \<times> 'v) list \<Rightarrow> 'k \<Rightarrow> 'v \<Rightarrow> ('k \<times> 'v) list" where
  "dict_set [] k v = [(k, v)]"
| "dict_set ((k', v') # d) k v =
     (if k' = k then (k, v) # d else (k', v') # dict_set d k v)"

text \<open>\<open>int(x)\<close> on a float truncates towards zero.\<close>

definition py_int :: "real \<Rightarrow> int" where
  "py_int x = (if 0 \<le> x then \<lfloor>x\<rfloor> else \<lceil>x\<rceil>)"

section \<open>calendar_integration.py\<close>

subsection \<open>GoogleCalendarIntegration.get_availability\<close>

text \<open>
  The integration object is represented by the answer of the free/busy query
  (\<open>_get_service\<close>, \<open>freebusy().query(...).execute()\<close> and the parsing of the
  busy periods): either the busy ranges or the exception raised on the way.
  Instants are offset-aware and lie well inside the range of \<open>datetime\<close>: the
  \<open>TypeError\<close> of comparing a naive with an aware datetime and the \<open>OverflowError\<close>
  of an addition beyond \<open>datetime.max\<close>, which the same \<open>except\<close> clause would turn
  into the empty list, do not occur in the model.
\<close>

record GoogleCalendarIntegration =
  freebusy :: "user_id \<Rightarrow> instant \<Rightarrow> instant \<Rightarrow> timezone \<Rightarrow> error + time_range list"

definition slot_duration :: int where
  "slot_duration = 30 * 60"

text \<open>The inner \<open>for\<close> loop with its \<open>break\<close>: the slot is available unless it
  overlaps a busy period.\<close>

fun is_available :: "instant \<Rightarrow> instant \<Rightarrow> time_range list \<Rightarrow> bool" where
  "is_available current_time slot_end [] = True"
| "is_available current_time slot_end ((busy_start, busy_end) # busy_ranges) =
     (if current_time < busy_end \<and> slot_end > busy_start then False
      else is_available current_time slot_end busy_ranges)"

text \<open>The \<open>while current_time + slot_duration <= end_time\<close> loop.\<close>

function available_slots_from :: "instant \<Rightarrow> instant \<Rightarrow> time_range list \<Rightarrow> slot list" where
  "available_slots_from current_time end_time' busy_ranges =
     (if current_time + slot_duration \<le> end_time' then
        (let slot_end = current_time + slot_duration in
           (if is_available current_time slot_end busy_ranges
            then [\<lparr>start_time = current_time, end_time = slot_end,
                   duration_minutes = py_int (real_of_int slot_duration / 60)\<rparr>]
            else [])
           @ available_slots_from (current_time + slot_duration) end_time' busy_ranges)
      else [])"
  by pat_completeness auto
termination
  by (relation "measure (\<lambda>(c, e, b). nat (e - c))") (auto simp: slot_duration_def)

declare available_slots_from.simps [simp del]

definition GoogleCalendarIntegration_get_availability ::
  "GoogleCalendarIntegration \<Rightarrow> user_id \<Rightarrow> instant \<Rightarrow> instant \<Rightarrow> timezone \<Rightarrow> slot list" where
  "GoogleCalendarIntegration_get_availability self user_id start_time' end_time' tz =
     (case freebusy self user_id start_time' end_time' tz of
        Inl e \<Rightarrow> []
      | Inr busy_ranges \<Rightarrow> available_slots_from start_time' end_time' busy_ranges)"

subsection \<open>CalendarService\<close>

text \<open>
  The service maps a user to a provider name and a provider name to a registered
  integration. The integration modelled is the Google one, which derives the free
  slots from busy intervals; the Microsoft integration (free slots read off an
  availability view, on the same grid of thirty minutes) is not part of the model.
\<close>

record CalendarService =
  integrations :: "string \<rightharpoonup> GoogleCalendarIntegration"
  user_providers :: "user_id \<rightharpoonup> string"

definition get_integration :: "CalendarService \<Rightarrow> user_id \<Rightarrow> error + GoogleCalendarIntegration" where
  "get_integration self user_id =
     (case user_providers self user_id of
        None \<Rightarrow> Inl (ValueError (''No calendar provider set for user '' @ user_id))
      | Some provider \<Rightarrow>
          if provider = [] then Inl (ValueError (''No calendar provider set for user '' @ user_id))
          else (case integrations self provider of
                  None \<Rightarrow> Inl (ValueError (''Calendar provider '' @ provider @ '' not registered''))
                | Some integration \<Rightarrow> Inr integration))"

definition CalendarService_get_availability ::
  "CalendarService \<Rightarrow> user_id \<Rightarrow> instant \<Rightarrow> instant \<Rightarrow> timezone \<Rightarrow> error + slot list" where
  "CalendarService_get_availability self user_id start_time' end_time' tz =
     (case get_integration self user_id of
        Inl e \<Rightarrow> Inl e
      | Inr integration \<Rightarrow>
          Inr (GoogleCalendarIntegration_get_availability integration user_id start_time' end_time' tz))"

subsection \<open>CalendarService._find_common_slots\<close>

definition to_range :: "slot \<Rightarrow> time_range" where
  "to_range s = (start_time s, end_time s)"

text \<open>The two nested \<open>for\<close> loops that intersect the running common ranges with one
  user's ranges.\<close>

definition intersect_ranges :: "int \<Rightarrow> time_range list \<Rightarrow> time_range list \<Rightarrow> time_range list" where
  "intersect_ranges duration_minutes' potential_common user_slots =
     concat (map (\<lambda>(common_start, common_end).
       concat (map (\<lambda>(slot_start, slot_end).
         (let intersection_start = max common_start slot_start;
              intersection_end = min common_end slot_end
          in if intersection_start < intersection_end
                \<and> real_of_int (intersection_end - intersection_start) / 60
                    \<ge> real_of_int duration_minutes'
             then [(intersection_start, intersection_end)] else []))
         user_slots))
       potential_common)"

text \<open>The loop over the users after the first; \<open>None\<close> is the early
  \<open>return []\<close> taken as soon as no common range is left.\<close>

fun intersect_users :: "int \<Rightarrow> time_range list \<Rightarrow> time_range list list \<Rightarrow> time_range list option" where
  "intersect_users duration_minutes' potential_common [] = Some potential_common"
| "intersect_users duration_minutes' potential_common (user_slots # rest) =
     (let new_common = intersect_ranges duration_minutes' potential_common user_slots
      in if new_common = [] then None
         else intersect_users duration_minutes' new_common rest)"

definition to_common_slots :: "int \<Rightarrow> time_range list \<Rightarrow> slot list" where
  "to_common_slots duration_minutes' potential_common =
     concat (map (\<lambda>(start, end).
       (let duration = real_of_int (end - start) / 60
        in if duration \<ge> real_of_int duration_minutes'
           then [\<lparr>start_time = start, end_time = end, duration_minutes = py_int duration\<rparr>]
           else []))
       potential_common)"

definition find_common_slots ::
  "(user_id \<times> slot list) list \<Rightarrow> int \<Rightarrow> timezone \<Rightarrow> slot list" where
  "find_common_slots all_availability duration_minutes' tz =
     (case map (\<lambda>(user_id, slots). map to_range slots) all_availability of
        [] \<Rightarrow> []
      | first_user # others \<Rightarrow>
          (case intersect_users duration_minutes' first_user others of
             None \<Rightarrow> []
           | Some potential_common \<Rightarrow> to_common_slots duration_minutes' potential_common))"

subsection \<open>CalendarService.get_common_availability\<close>

text \<open>The loop that fills \<open>all_availability\<close>; \<open>Inl\<close> is the exception caught by the
  \<open>except\<close> clause, which makes the caller return the empty list.\<close>

fun collect_availability ::
  "CalendarService \<Rightarrow> user_id list \<Rightarrow> instant \<Rightarrow> instant \<Rightarrow> timezone
     \<Rightarrow> (user_id \<times> slot list) list \<Rightarrow> error + (user_id \<times> slot list) list" where
  "collect_availability self [] start_time' end_time' tz all_availability = Inr all_availability"
| "collect_availability self (user_id # user_ids) start_time' end_time' tz all_availability =
     (case CalendarService_get_availability self user_id start_time' end_time' tz of
        Inl e \<Rightarrow> Inl e
      | Inr availability \<Rightarrow>
          collect_availability self user_ids start_time' end_time' tz
            (dict_set all_availability user_id availability))"

definition get_common_availability ::
  "CalendarService \<Rightarrow> user_id list \<Rightarrow> instant \<Rightarrow> instant \<Rightarrow> int \<Rightarrow> timezone \<Rightarrow> slot list" where
  "get_common_availability self user_ids start_time' end_time' duration_minutes' tz =
     (case collect_availability self user_ids start_time' end_time' tz [] of
        Inl e \<Rightarrow> []
      | Inr all_availability \<Rightarrow> find_common_slots all_availability duration_minutes' tz)"

section \<open>scheduling_engine.py\<close>

subsection \<open>What the code reads from outside\<close>

text \<open>
  \<open>datetime.now()\<close> and the time-zone database of \<open>pytz\<close> are inputs of the
  model: \<open>now\<close> is the clock reading during a call, \<open>utcoffset tz t\<close> the offset in
  seconds of zone \<open>tz\<close> from UTC at instant \<open>t\<close>.
\<close>

record ambient =
  now :: instant
  utcoffset :: "timezone \<Rightarrow> instant \<Rightarrow> int"

definition astimezone :: "'a ambient_scheme \<Rightarrow> timezone \<Rightarrow> instant \<Rightarrow> int" where
  "astimezone w tz t = t + utcoffset w tz t"

definition hour :: "int \<Rightarrow> int" where
  "hour local = (local div 3600) mod 24"

text \<open>Monday is 0 and Sunday 6; the first of January 1970 was a Thursday.\<close>

definition weekday :: "int \<Rightarrow> int" where
  "weekday local = (local div 86400 + 3) mod 7"

definition lower_char :: "char \<Rightarrow> char" where
  "lower_char c = (let n = (of_char c :: nat) in if 65 \<le> n \<and> n \<le> 90 then char_of (n + 32) else c)"

definition lower :: "string \<Rightarrow> string" where
  "lower s = map lower_char s"

subsection \<open>Constraints\<close>

record preferences =
  preferred_time_of_day :: "string option"
  avoid_mondays :: bool
  avoid_fridays :: bool
  avoid_weekends :: bool
  preferred_start_date :: "instant option"
  preferred_end_date :: "instant option"

record evaluation_context =
  ctx_timezone :: timezone
  ctx_duration_minutes :: int
  ctx_participants :: "user_id list"
  ctx_preferences :: "preferences option"

text \<open>A constraint object: its class name, its weight and its \<open>evaluate\<close> method.\<close>

record SchedulingConstraint =
  class_name :: string
  weight :: real
  evaluate :: "ambient \<Rightarrow> slot \<Rightarrow> evaluation_context \<Rightarrow> real"

definition BusinessHoursConstraint :: "int \<Rightarrow> int \<Rightarrow> int set \<Rightarrow> real \<Rightarrow> SchedulingConstraint" where
  "BusinessHoursConstraint start_hour end_hour business_days w =
     \<lparr>class_name = ''BusinessHoursConstraint'', weight = w,
      evaluate = (\<lambda>amb s ctx.
        (let local = astimezone amb (ctx_timezone ctx) (start_time s);
             day_of_week = weekday local
         in if day_of_week \<notin> business_days then 0
            else if hour local < start_hour \<or> hour local \<ge> end_hour then 0
            else 1))\<rparr>"

definition TimePreferenceConstraint :: "string \<Rightarrow> real \<Rightarrow> SchedulingConstraint" where
  "TimePreferenceConstraint preference w =
     \<lparr>class_name = ''TimePreferenceConstraint'', weight = w,
      evaluate = (\<lambda>amb s ctx.
        (let pref = lower preference in
         if pref = ''any'' then 1
         else
          (let h = hour (astimezone amb (ctx_timezone ctx) (start_time s)) in
           if pref = ''morning'' \<and> 9 \<le> h \<and> h < 12 then 1
           else if pref = ''afternoon'' \<and> 12 \<le> h \<and> h < 17 then 1
           else if pref = ''evening'' \<and> 17 \<le> h \<and> h < 20 then 1
           else if pref = ''morning'' \<and> 8 \<le> h \<and> h < 9 then 8 / 10
           else if pref = ''morning'' \<and> 12 \<le> h \<and> h < 13 then 6 / 10
           else if pref = ''afternoon'' \<and> 11 \<le> h \<and> h < 12 then 8 / 10
           else if pref = ''afternoon'' \<and> 17 \<le> h \<and> h < 18 then 6 / 10
           else if pref = ''evening'' \<and> 16 \<le> h \<and> h < 17 then 8 / 10
           else if pref = ''evening'' \<and> 20 \<le> h \<and> h < 21 then 6 / 10
           else 3 / 10)))\<rparr>"

definition DayAvoidanceConstraint :: "int set \<Rightarrow> real \<Rightarrow> SchedulingConstraint" where
  "DayAvoidanceConstraint days_to_avoid w =
     \<lparr>class_name = ''DayAvoidanceConstraint'', weight = w,
      evaluate = (\<lambda>amb s ctx.
        if weekday (astimezone amb (ctx_timezone ctx) (start_time s)) \<in> days_to_avoid
        then 0 else 1)\<rparr>"

text \<open>\<open>timedelta.days\<close> of a difference of instants is the floor of its number of days.\<close>

definition days :: "int \<Rightarrow> int" where
  "days delta = delta div 86400"

definition DateRangeConstraint ::
  "instant option \<Rightarrow> instant option \<Rightarrow> instant option \<Rightarrow> instant option \<Rightarrow> real \<Rightarrow> SchedulingConstraint" where
  "DateRangeConstraint earliest_date latest_date preferred_start preferred_end w =
     \<lparr>class_name = ''DateRangeConstraint'', weight = w,
      evaluate = (\<lambda>amb s ctx.
        (let t = start_time s in
         if (case earliest_date of None \<Rightarrow> False | Some e \<Rightarrow> t < e) then 0
         else if (case latest_date of None \<Rightarrow> False | Some l \<Rightarrow> t > l) then 0
         else (case (preferred_start, preferred_end) of
                 (Some ps, Some pe) \<Rightarrow>
                   if ps \<le> t \<and> t \<le> pe then 1
                   else if t < ps then max (1 / 2) (1 - real_of_int (days (ps - t)) * (1 / 10))
                   else if t > pe then max (1 / 2) (1 - real_of_int (days (t - pe)) * (1 / 10))
                   else 1
               | _ \<Rightarrow> 1)))\<rparr>"

definition MinimumNoticeConstraint :: "int \<Rightarrow> real \<Rightarrow> SchedulingConstraint" where
  "MinimumNoticeConstraint minimum_hours w =
     \<lparr>class_name = ''MinimumNoticeConstraint'', weight = w,
      evaluate = (\<lambda>amb s ctx.
        (let notice_hours = real_of_int (start_time s - now amb) / 3600
         in if notice_hours < real_of_int minimum_hours then 0 else 1))\<rparr>"

subsection \<open>ConstraintBasedScheduler\<close>

definition create_default_constraints :: "SchedulingConstraint list" where
  "create_default_constraints =
     [BusinessHoursConstraint 9 17 {0, 1, 2, 3, 4} 1, MinimumNoticeConstraint 24 (9 / 10)]"

definition prepare_constraints ::
  "SchedulingConstraint list option \<Rightarrow> preferences option \<Rightarrow> SchedulingConstraint list" where
  "prepare_constraints constraints prefs =
     create_default_constraints
     @ (case constraints of None \<Rightarrow> [] | Some cs \<Rightarrow> cs)
     @ (case prefs of
          None \<Rightarrow> []
        | Some p \<Rightarrow>
            (case preferred_time_of_day p of
               None \<Rightarrow> [] | Some tod \<Rightarrow> [TimePreferenceConstraint tod (7 / 10)])
            @ (let days_to_avoid =
                     (if avoid_mondays p then {0} else {})
                   \<union> (if avoid_fridays p then {4} else {})
                   \<union> (if avoid_weekends p then {5, 6} else {})
               in if days_to_avoid \<noteq> {} then [DayAvoidanceConstraint days_to_avoid (8 / 10)] else [])
            @ (case (preferred_start_date p, preferred_end_date p) of
                 (Some ps, Some pe) \<Rightarrow> [DateRangeConstraint None None (Some ps) (Some pe) (6 / 10)]
               | _ \<Rightarrow> []))"

record scored_slot = slot +
  score :: real
  constraint_scores :: "(string \<times> real) list"

text \<open>The body of the loop of \<open>_score_slots\<close> for one slot: the inner loop adds
  \<open>score * weight\<close> to \<open>weighted_score\<close> and stores the score under the class name.
  The sums, products and the quotient are those of exact real numbers; the code's
  doubles round after every operation.\<close>

definition score_slot :: "ambient \<Rightarrow> SchedulingConstraint list \<Rightarrow> evaluation_context \<Rightarrow> slot \<Rightarrow> scored_slot" where
  "score_slot amb constraints ctx s =
     (let total_weight = sum_list (map weight constraints);
          (weighted_score, scores) =
            fold (\<lambda>c (acc, d).
                    (let sc = evaluate c amb s ctx
                     in (acc + sc * weight c, dict_set d (class_name c) sc)))
                 constraints (0, []);
          normalized_score = (if total_weight > 0 then weighted_score / total_weight else 1)
      in \<lparr>start_time = start_time s, end_time = end_time s,
          duration_minutes = duration_minutes s,
          score = normalized_score, constraint_scores = scores\<rparr>)"

definition score_slots ::
  "ambient \<Rightarrow> slot list \<Rightarrow> SchedulingConstraint list \<Rightarrow> evaluation_context \<Rightarrow> scored_slot list" where
  "score_slots amb slots constraints ctx = map (score_slot amb constraints ctx) slots"

text \<open>The slice \<open>xs[:n]\<close>: a negative \<open>n\<close> counts from the end.\<close>

definition slice_to :: "int \<Rightarrow> 'a list \<Rightarrow> 'a list" where
  "slice_to n xs = (if 0 \<le> n then take (nat n) xs else take (nat (int (length xs) + n)) xs)"

text \<open>\<open>sorted(xs, key=lambda x: x['score'], reverse=True)\<close>: a stable sort into
  descending order of the score; slots of equal score keep their order.\<close>

definition sorted_by_score_reverse :: "('a scored_slot_scheme) list \<Rightarrow> ('a scored_slot_scheme) list" where
  "sorted_by_score_reverse xs = sort_key (\<lambda>x. - score x) xs"

text \<open>The calendar service is used through three methods; any object that has them
  will do. The answers of \<open>create_event\<close> and \<open>delete_event\<close> are those of the
  outside calendar (\<open>Inl\<close>: the call raises).\<close>

record event =
  event_id :: string

record event_details =
  ed_title :: string
  ed_location :: string
  ed_description :: string
  ed_start_time :: instant
  ed_end_time :: instant
  ed_timezone :: timezone
  ed_attendees :: "string list"

record calendar_service =
  common_availability :: "user_id list \<Rightarrow> instant \<Rightarrow> instant \<Rightarrow> int \<Rightarrow> timezone \<Rightarrow> slot list"
  create_event :: "user_id \<Rightarrow> event_details \<Rightarrow> error + event"
  delete_event :: "user_id \<Rightarrow> string \<Rightarrow> error + bool"

text \<open>The \<open>CalendarService\<close> of calendar_integration.py behind that interface; the
  provider's answers to event creation and deletion are parameters.\<close>

definition CalendarService_interface ::
  "CalendarService \<Rightarrow> (user_id \<Rightarrow> event_details \<Rightarrow> error + event)
     \<Rightarrow> (user_id \<Rightarrow> string \<Rightarrow> bool) \<Rightarrow> calendar_service" where
  "CalendarService_interface self provider_create provider_delete =
     \<lparr>common_availability = get_common_availability self,
      create_event = (\<lambda>user_id details.
        case get_integration self user_id of Inl e \<Rightarrow> Inl e | Inr i \<Rightarrow> provider_create user_id details),
      delete_event = (\<lambda>user_id eid.
        case get_integration self user_id of Inl e \<Rightarrow> Inl e | Inr i \<Rightarrow> Inr (provider_delete user_id eid))\<rparr>"

definition ConstraintBasedScheduler_find_available_slots ::
  "ambient \<Rightarrow> calendar_service \<Rightarrow> user_id list \<Rightarrow> int \<Rightarrow> instant \<times> instant
     \<Rightarrow> SchedulingConstraint list option \<Rightarrow> preferences option \<Rightarrow> timezone \<Rightarrow> int
     \<Rightarrow> scored_slot list" where
  "ConstraintBasedScheduler_find_available_slots amb cal participants duration_minutes'
       date_range constraints prefs tz max_slots =
     (let common_slots = common_availability cal participants (fst date_range) (snd date_range)
                           duration_minutes' tz
      in if common_slots = [] then []
         else
          (let all_constraints = prepare_constraints constraints prefs;
               ctx = \<lparr>ctx_timezone = tz, ctx_duration_minutes = duration_minutes',
                      ctx_participants = participants, ctx_preferences = prefs\<rparr>;
               scored_slots = score_slots amb common_slots all_constraints ctx
           in slice_to max_slots (sorted_by_score_reverse scored_slots)))"

subsection \<open>InterviewScheduler\<close>

text \<open>
  One call of the public interface runs in a \<open>world\<close>: the clock and time zones,
  the calendar service, whether a communication service is configured, and the
  strings that \<open>_generate_slot_id\<close> (the \<open>k\<close>-th call), \<open>_generate_interview_id\<close>
  and \<open>_generate_token\<close> produce from the timestamp and \<open>random.randint\<close>.
  The calls made to the outside are appended to a trace.
\<close>

record world =
  clock :: ambient
  calendar :: calendar_service
  has_communication_service :: bool
  generated_slot_id :: "nat \<Rightarrow> string"
  generated_interview_id :: string
  generated_token :: string

datatype call =
    CreateEvent user_id event_details
  | DeleteEvent user_id string
  | SendInterviewConfirmation string string string
  | SendCancellationNotification string string

record enriched_slot = scored_slot +
  job_id :: string
  candidate_id :: string
  interviewer_ids :: "string list"
  slot_id :: string

definition enrich :: "world \<Rightarrow> string \<Rightarrow> string \<Rightarrow> string list \<Rightarrow> nat \<times> scored_slot \<Rightarrow> enriched_slot" where
  "enrich w job candidate interviewers ks =
     (case ks of (k, s) \<Rightarrow>
        \<lparr>start_time = start_time s, end_time = end_time s, duration_minutes = duration_minutes s,
         score = score s, constraint_scores = constraint_scores s,
         job_id = job, candidate_id = candidate, interviewer_ids = interviewers,
         slot_id = generated_slot_id w k\<rparr>)"

definition InterviewScheduler_find_available_slots ::
  "world \<Rightarrow> string \<Rightarrow> string \<Rightarrow> string list \<Rightarrow> int \<Rightarrow> instant \<times> instant
     \<Rightarrow> preferences option \<Rightarrow> timezone \<Rightarrow> int \<Rightarrow> enriched_slot list" where
  "InterviewScheduler_find_available_slots w job candidate interviewers duration_minutes'
       date_range prefs tz max_slots =
     (let participants = interviewers @ (if candidate \<noteq> [] then [candidate] else []);
          available = ConstraintBasedScheduler_find_available_slots (clock w) (calendar w)
                        participants duration_minutes' date_range None prefs tz max_slots
      in map (enrich w job candidate interviewers) (enumerate 0 available))"

record interview =
  iv_id :: string
  iv_job_id :: string
  iv_candidate_id :: string
  iv_interviewer_ids :: "string list"
  iv_start_time :: "instant option"
  iv_end_time :: "instant option"
  iv_timezone :: "timezone option"
  iv_location :: "string option"
  iv_interview_type :: "string option"
  iv_additional_info :: "string option"
  iv_status :: string
  iv_created_at :: "instant option"
  iv_events :: "(user_id \<times> event) list"
  iv_participant_names :: "string list option"
  iv_cancellation_reason :: "string option"
  iv_cancelled_at :: "instant option"

text \<open>One \<open>try: ... create_event ... except\<close> block: the event is stored under the
  participant when the call returns, and nothing is stored when it raises.\<close>

definition create_event_for ::
  "calendar_service \<Rightarrow> event_details \<Rightarrow> user_id
     \<Rightarrow> (user_id \<times> event) list \<times> call list \<Rightarrow> (user_id \<times> event) list \<times> call list" where
  "create_event_for cal details participant st =
     (case st of (events, trace) \<Rightarrow>
        (case create_event cal participant details of
           Inl e \<Rightarrow> (events, trace @ [CreateEvent participant details])
         | Inr ev \<Rightarrow> (dict_set events participant ev, trace @ [CreateEvent participant details])))"

definition schedule_interview ::
  "world \<Rightarrow> string \<Rightarrow> string \<Rightarrow> string list \<Rightarrow> instant \<Rightarrow> instant \<Rightarrow> string \<Rightarrow> string
     \<Rightarrow> string \<Rightarrow> timezone \<Rightarrow> call list \<Rightarrow> interview \<times> call list" where
  "schedule_interview w job candidate interviewers start_time' end_time' location
       interview_type additional_info tz trace =
     (let interview_id = generated_interview_id w;
          candidate_name = ''Candidate '' @ candidate;
          candidate_email = candidate @ ''@example.com'';
          interviewer_names = map (\<lambda>i. ''Interviewer '' @ i) interviewers;
          interviewer_emails = map (\<lambda>i. i @ ''@example.com'') interviewers;
          all_attendees = interviewer_emails @ [candidate_email];
          details = \<lparr>ed_title = ''Interview: '' @ interview_type @ '' for Job '' @ job,
                     ed_location = location,
                     ed_description = ''Interview with '' @ candidate_name @ [CHR 0x0A, CHR 0x0A]
                        @ ''Type: '' @ interview_type @ [CHR 0x0A, CHR 0x0A] @ additional_info,
                     ed_start_time = start_time', ed_end_time = end_time',
                     ed_timezone = tz, ed_attendees = all_attendees\<rparr>;
          (events, trace1) =
             create_event_for (calendar w) details candidate
               (fold (create_event_for (calendar w) details) interviewers ([], trace));
          trace2 = (if has_communication_service w
                    then trace1 @ [SendInterviewConfirmation interview_id job candidate]
                    else trace1)
      in (\<lparr>iv_id = interview_id, iv_job_id = job, iv_candidate_id = candidate,
           iv_interviewer_ids = interviewers,
           iv_start_time = Some start_time', iv_end_time = Some end_time',
           iv_timezone = Some tz, iv_location = Some location,
           iv_interview_type = Some interview_type,
           iv_additional_info = Some additional_info,
           iv_status = ''scheduled'', iv_created_at = Some (now (clock w)),
           iv_events = events,
           iv_participant_names = Some (candidate_name # interviewer_names),
           iv_cancellation_reason = None, iv_cancelled_at = None\<rparr>, trace2))"

text \<open>\<open>cancel_interview\<close> does not look the interview up: it builds this record
  ("In a real system, this would retrieve the interview from a database. For this
  example, we'll simulate it") and gives it the identifier it was called with.\<close>

definition simulated_interview :: "string \<Rightarrow> interview" where
  "simulated_interview interview_id =
     \<lparr>iv_id = interview_id, iv_job_id = ''job_12345'', iv_candidate_id = ''candidate_67890'',
      iv_interviewer_ids = [''interviewer_11111'', ''interviewer_22222''],
      iv_start_time = None, iv_end_time = None, iv_timezone = None, iv_location = None,
      iv_interview_type = None, iv_additional_info = None,
      iv_status = [], iv_created_at = None,
      iv_events = [(''candidate_67890'', \<lparr>event_id = ''event_1''\<rparr>),
                   (''interviewer_11111'', \<lparr>event_id = ''event_2''\<rparr>),
                   (''interviewer_22222'', \<lparr>event_id = ''event_3''\<rparr>)],
      iv_participant_names = None, iv_cancellation_reason = None, iv_cancelled_at = None\<rparr>"

text \<open>The loop over \<open>interview["events"].items()\<close>: \<open>delete_event\<close> is called for
  every entry; its answer is not used and an exception is only logged.\<close>

definition delete_events :: "calendar_service \<Rightarrow> (user_id \<times> event) list \<Rightarrow> call list \<Rightarrow> call list" where
  "delete_events cal events trace =
     fold (\<lambda>(participant_id, event_data) tr.
             (case delete_event cal participant_id (event_id event_data) of
                Inl e \<Rightarrow> tr @ [DeleteEvent participant_id (event_id event_data)]
              | Inr ok \<Rightarrow> tr @ [DeleteEvent participant_id (event_id event_data)]))
          events trace"

definition cancel_interview :: "world \<Rightarrow> string \<Rightarrow> string \<Rightarrow> call list \<Rightarrow> interview \<times> call list" where
  "cancel_interview w interview_id reason trace =
     (let interview = simulated_interview interview_id;
          trace1 = delete_events (calendar w) (iv_events interview) trace;
          trace2 = (if has_communication_service w
                    then trace1 @ [SendCancellationNotification interview_id reason]
                    else trace1)
      in (interview\<lparr>iv_status := ''cancelled'', iv_cancellation_reason := Some reason,
                    iv_cancelled_at := Some (now (clock w))\<rparr>, trace2))"

subsection \<open>CandidateSchedulingService\<close>

record token_data =
  td_candidate_id :: string
  td_job_id :: string
  td_expiration :: instant
  td_created_at :: instant

record service_state =
  tokens :: "string \<rightharpoonup> token_data"
  available_slots :: "string \<rightharpoonup> enriched_slot list"
  calls :: "call list"

definition generate_scheduling_token ::
  "world \<Rightarrow> string \<Rightarrow> string \<Rightarrow> instant \<Rightarrow> service_state \<Rightarrow> string \<times> service_state" where
  "generate_scheduling_token w candidate job expiration st =
     (let token = generated_token w
      in (token, st\<lparr>tokens := (tokens st)(token \<mapsto>
            \<lparr>td_candidate_id = candidate, td_job_id = job, td_expiration = expiration,
             td_created_at = now (clock w)\<rparr>)\<rparr>))"

definition validate_token :: "world \<Rightarrow> service_state \<Rightarrow> string \<Rightarrow> error + token_data" where
  "validate_token w st token =
     (case tokens st token of
        None \<Rightarrow> Inl (ValueError ''Invalid token'')
      | Some data \<Rightarrow>
          if now (clock w) > td_expiration data then Inl (ValueError ''Token expired'')
          else Inr data)"

definition get_available_slots ::
  "world \<Rightarrow> string \<Rightarrow> service_state \<Rightarrow> (error + enriched_slot list) \<times> service_state" where
  "get_available_slots w token st =
     (case validate_token w st token of
        Inl e \<Rightarrow> (Inl e, st)
      | Inr data \<Rightarrow>
          (let interviewers = [''interviewer_11111'', ''interviewer_22222''];
               start_date = now (clock w) + 1 * 86400;
               end_date = now (clock w) + 10 * 86400;
               slots = InterviewScheduler_find_available_slots w (td_job_id data)
                         (td_candidate_id data) interviewers 60 (start_date, end_date)
                         None ''UTC'' 10
           in (Inr slots, st\<lparr>available_slots := (available_slots st)(token \<mapsto> slots)\<rparr>)))"

definition confirm_slot ::
  "world \<Rightarrow> string \<Rightarrow> string \<Rightarrow> service_state \<Rightarrow> (error + interview) \<times> service_state" where
  "confirm_slot w token sid st =
     (case validate_token w st token of
        Inl e \<Rightarrow> (Inl e, st)
      | Inr data \<Rightarrow>
          (case available_slots st token of
             None \<Rightarrow> (Inl (ValueError ''No available slots for this token''), st)
           | Some slots \<Rightarrow>
               (case find (\<lambda>s. slot_id s = sid) slots of
                  None \<Rightarrow> (Inl (ValueError ''Invalid slot ID''), st)
                | Some selected_slot \<Rightarrow>
                    (case schedule_interview w (td_job_id data) (td_candidate_id data)
                            (interviewer_ids selected_slot)
                            (start_time selected_slot) (end_time selected_slot)
                            ''Conference Room A'' ''Technical Interview''
                            ''Please prepare to discuss your experience with Python and React.''
                            ''UTC'' (calls st) of
                       (interview, trace) \<Rightarrow>
                         (Inr interview,
                          st\<lparr>available_slots := (available_slots st)(token := None),
                             tokens := (tokens st)(token := None),
                             calls := trace\<rparr>)))))"

section \<open>Notions used in the statements\<close>

text \<open>A range lies inside another.\<close>

definition inside :: "time_range \<Rightarrow> time_range \<Rightarrow> bool" where
  "inside r c = (fst c \<le> fst r \<and> snd r \<le> snd c)"

text \<open>The half-open window \<open>[s, e)\<close> of a slot overlaps a busy interval.\<close>

definition overlaps :: "'a slot_scheme \<Rightarrow> time_range \<Rightarrow> bool" where
  "overlaps s busy = (start_time s < snd busy \<and> fst busy < end_time s)"

subsection \<open>A calendar for the examples\<close>

text \<open>
  Four users on the Google integration: \<open>A\<close> is busy from 10:00 to 11:00 and \<open>B\<close> from
  14:00 to 15:00 on the first of January 1970 (a Thursday), the query for \<open>C\<close> raises,
  and \<open>D\<close> is busy all day. User \<open>E\<close> has no calendar provider.
\<close>

definition example_google :: GoogleCalendarIntegration where
  "example_google = \<lparr>freebusy = (\<lambda>user_id start_time' end_time' tz.
      if user_id = ''A'' then Inr [(36000, 39600)]
      else if user_id = ''B'' then Inr [(50400, 54000)]
      else if user_id = ''D'' then Inr [(0, 86400)]
      else Inl (ApiError ''calendar not reachable''))\<rparr>"

definition example_calendar :: CalendarService where
  "example_calendar = \<lparr>integrations = [''google'' \<mapsto> example_google],
      user_providers = [''A'' \<mapsto> ''google'', ''B'' \<mapsto> ''google'',
                        ''C'' \<mapsto> ''google'', ''D'' \<mapsto> ''google'']\<rparr>"

subsection \<open>Sequences of requests to the CandidateSchedulingService\<close>

datatype request =
    GenerateToken world string string instant
  | GetAvailableSlots world string
  | ConfirmSlot world string string

fun perform :: "request \<Rightarrow> service_state \<Rightarrow> service_state" where
  "perform (GenerateToken w candidate job expiration) st =
     snd (generate_scheduling_token w candidate job expiration st)"
| "perform (GetAvailableSlots w token) st = snd (get_available_slots w token st)"
| "perform (ConfirmSlot w token sid) st = snd (confirm_slot w token sid st)"

text \<open>The request stores a token under the given string.\<close>

fun issues :: "request \<Rightarrow> string \<Rightarrow> bool" where
  "issues (GenerateToken w candidate job expiration) token = (generated_token w = token)"
| "issues (GetAvailableSlots w t) token = False"
| "issues (ConfirmSlot w t sid) token = False"

subsection \<open>A service for the examples\<close>

text \<open>
  A calendar service in the manner of the \<open>MockCalendarService\<close> of
  scheduling_engine.py: it offers fixed one-hour slots and creates and deletes events
  without failure.
\<close>

definition mock_calendar :: "slot list \<Rightarrow> calendar_service" where
  "mock_calendar slots =
     \<lparr>common_availability = (\<lambda>user_ids start_time' end_time' duration_minutes' tz. slots),
      create_event = (\<lambda>user_id details. Inr \<lparr>event_id = ''event_of_'' @ user_id\<rparr>),
      delete_event = (\<lambda>user_id eid. Inr True)\<rparr>"

definition two_slots :: "slot list" where
  "two_slots = [\<lparr>start_time = 381600, end_time = 385200, duration_minutes = 60\<rparr>,
                \<lparr>start_time = 482400, end_time = 486000, duration_minutes = 60\<rparr>]"

definition example_world :: world where
  "example_world =
     \<lparr>clock = \<lparr>now = 0, utcoffset = (\<lambda>tz t. 0)\<rparr>,
      calendar = mock_calendar two_slots,
      has_communication_service = False,
      generated_slot_id = (\<lambda>k. if k = 0 then ''slot_0_1000'' else ''slot_0_1001''),
      generated_interview_id = ''interview_0_1000'',
      generated_token = ''token_0_100000''\<rparr>"

text \<open>The same service five seconds later: one slot has gone from the calendar, and
  the random parts of the identifiers are new.\<close>

definition later_world :: world where
  "later_world =
     \<lparr>clock = \<lparr>now = 5, utcoffset = (\<lambda>tz t. 0)\<rparr>,
      calendar = mock_calendar [\<lparr>start_time = 482400, end_time = 486000, duration_minutes = 60\<rparr>],
      has_communication_service = False,
      generated_slot_id = (\<lambda>k. if k = 0 then ''slot_5_2000'' else ''slot_5_2001''),
      generated_interview_id = ''interview_5_2000'',
      generated_token = ''token_5_200000''\<rparr>"

definition initial_state :: service_state where
  "initial_state = \<lparr>tokens = Map.empty, available_slots = Map.empty, calls = []\<rparr>"

text \<open>A token has been issued for candidate \<open>bob\<close>; then its slots have been read.\<close>

definition issued_state :: service_state where
  "issued_state = snd (generate_scheduling_token example_world ''bob'' ''job_1'' 1000 initial_state)"

definition offered_state :: service_state where
  "offered_state = snd (get_available_slots example_world ''token_0_100000'' issued_state)"

definition confirmed_state :: service_state where
  "confirmed_state = snd (confirm_slot example_world ''token_0_100000'' ''slot_0_1000'' offered_state)"

subsection \<open>Orders used in the statements\<close>



text \<open>The bounds a slot of a request with range \<open>[st, en]\<close> and duration \<open>d\<close> obeys.\<close>

definition within_request :: "instant \<Rightarrow> instant \<Rightarrow> int \<Rightarrow> 'a slot_scheme \<Rightarrow> bool" where
  "within_request st en d s =
     (st \<le> start_time s \<and> end_time s \<le> en \<and> 60 * d \<le> end_time s - start_time s)"

definition example_ambient :: ambient where
  "example_ambient = \<lparr>now = 0, utcoffset = (\<lambda>tz t. 0)\<rparr>"

text \<open>The repository's calendar service over the example calendar, with a provider
  that creates and deletes events without failure; a request that prefers the morning.\<close>

definition example_service :: calendar_service where
  "example_service = CalendarService_interface example_calendar
     (\<lambda>user_id details. Inr \<lparr>event_id = ''event_of_'' @ user_id\<rparr>) (\<lambda>user_id eid. True)"



section \<open>calendar_integration.py: MicrosoftCalendarIntegration.get_availability\<close>

text \<open>
  The Microsoft integration is represented by the answer of the \<open>getSchedule\<close> request
  (\<open>_get_token\<close>, the POST, \<open>raise_for_status\<close> and \<open>response.json()\<close>): the list
  under \<open>value\<close>, or the exception raised on the way. Of a schedule item the code reads
  the availability view (\<open>''''\<close> when absent) and the working hours (\<open>None\<close> when absent
  or empty); the times of day of the working hours are seconds after midnight, as
  \<open>strptime\<close> with \<open>%H:%M:%S\<close> reads them.
\<close>

record working_hours =
  daysOfWeek :: "string list option"
  startTime :: "int option"
  endTime :: "int option"

record schedule_item =
  availabilityView :: string
  workingHours :: "working_hours option"

record MicrosoftCalendarIntegration =
  getSchedule :: "user_id \<Rightarrow> instant \<Rightarrow> instant \<Rightarrow> timezone \<Rightarrow> error + schedule_item list"

text \<open>The keys 0 (Sunday) to 6 (Saturday) of the \<open>days\<close> dictionary.\<close>

definition day_name :: "int \<Rightarrow> string" where
  "day_name i =
     (if i = 0 then ''sunday'' else if i = 1 then ''monday'' else if i = 2 then ''tuesday''
      else if i = 3 then ''wednesday'' else if i = 4 then ''thursday''
      else if i = 5 then ''friday'' else ''saturday'')"

definition is_within_working_hours ::
  "ambient \<Rightarrow> instant \<Rightarrow> working_hours option \<Rightarrow> timezone \<Rightarrow> bool" where
  "is_within_working_hours amb time wh tz =
     (let days = (case wh of
                    None \<Rightarrow> (\<lambda>i. i \<in> {1, 2, 3, 4, 5})
                  | Some w \<Rightarrow> (\<lambda>i. day_name i \<in> set (case daysOfWeek w of None \<Rightarrow> [] | Some ds \<Rightarrow> ds)));
          start_of_work = (case wh of
                    None \<Rightarrow> 9 * 3600
                  | Some w \<Rightarrow> (case startTime w of None \<Rightarrow> 9 * 3600 | Some t \<Rightarrow> t));
          end_of_work = (case wh of
                    None \<Rightarrow> 17 * 3600
                  | Some w \<Rightarrow> (case endTime w of None \<Rightarrow> 17 * 3600 | Some t \<Rightarrow> t));
          local_time = astimezone amb tz time;
          day_of_week = (if weekday local_time = 6 then 0 else weekday local_time + 1);
          is_working_day = days day_of_week;
          time_of_day = local_time mod 86400;
          is_working_time = (start_of_work \<le> time_of_day \<and> time_of_day \<le> end_of_work)
      in is_working_day \<and> is_working_time)"

text \<open>The loop over the characters of the availability view: a slot is appended for a
  free status within working hours, then the time advances, and the loop is left once
  the time has reached the end of the range.\<close>

fun microsoft_slots ::
  "ambient \<Rightarrow> working_hours option \<Rightarrow> timezone \<Rightarrow> instant \<Rightarrow> string \<Rightarrow> instant \<Rightarrow> slot list" where
  "microsoft_slots amb wh tz end_time' [] current_time = []"
| "microsoft_slots amb wh tz end_time' (status # view) current_time =
     (if status = CHR ''0'' \<and> is_within_working_hours amb current_time wh tz
      then [\<lparr>start_time = current_time, end_time = current_time + slot_duration,
             duration_minutes = py_int (real_of_int slot_duration / 60)\<rparr>]
      else [])
     @ (if current_time + slot_duration \<ge> end_time' then []
        else microsoft_slots amb wh tz end_time' view (current_time + slot_duration))"

definition MicrosoftCalendarIntegration_get_availability ::
  "ambient \<Rightarrow> MicrosoftCalendarIntegration \<Rightarrow> user_id \<Rightarrow> instant \<Rightarrow> instant \<Rightarrow> timezone
     \<Rightarrow> slot list" where
  "MicrosoftCalendarIntegration_get_availability amb self user_id start_time' end_time' tz =
     (case getSchedule self user_id start_time' end_time' tz of
        Inl e \<Rightarrow> []
      | Inr schedule_items \<Rightarrow>
          (case schedule_items of
             [] \<Rightarrow> []
           | item # others \<Rightarrow>
               microsoft_slots amb (workingHours item) tz end_time' (availabilityView item)
                 start_time'))"

text \<open>A Microsoft calendar whose user is free in the first two half hours of the
  requested range, with no working hours given.\<close>

definition example_microsoft :: MicrosoftCalendarIntegration where
  "example_microsoft = \<lparr>getSchedule = (\<lambda>user_id start_time' end_time' tz.
      Inr [\<lparr>availabilityView = ''00'', workingHours = None\<rparr>])\<rparr>"

section \<open>Properties of the availability aggregation\<close>

lemma is_available_iff:
  "is_available c se busy \<longleftrightarrow> (\<forall>b \<in> set busy. \<not> (c < snd b \<and> se > fst b))"
  by (induction c se busy rule: is_available.induct) auto

lemma py_int_slot_duration: "py_int (real_of_int slot_duration / 60) = 30"
  by (simp add: py_int_def slot_duration_def)

lemma available_slots_from_member:
  "s \<in> set (available_slots_from c e busy) \<Longrightarrow>
     c \<le> start_time s \<and> end_time s = start_time s + slot_duration \<and> end_time s \<le> e
     \<and> is_available (start_time s) (end_time s) busy \<and> duration_minutes s = 30"
proof (induction c e busy rule: available_slots_from.induct)
  case (1 c e busy)
  show ?case
  proof (cases "c + slot_duration \<le> e")
    case True
    from "1.prems" True
    consider (here) "is_available c (c + slot_duration) busy"
        "s = \<lparr>start_time = c, end_time = c + slot_duration, duration_minutes = py_int (real_of_int slot_duration / 60)\<rparr>"
      | (later) "s \<in> set (available_slots_from (c + slot_duration) e busy)"
      by (subst (asm) available_slots_from.simps) (auto simp: Let_def split: if_splits)
    then show ?thesis
    proof cases
      case here
      with True show ?thesis by (simp add: py_int_slot_duration)
    next
      case later
      from "1.IH"[OF True refl later] show ?thesis by (auto simp: slot_duration_def)
    qed
  next
    case False
    with "1.prems" show ?thesis by (subst (asm) available_slots_from.simps) simp
  qed
qed


lemma intersect_ranges_member:
  assumes "r \<in> set (intersect_ranges d pc us)"
  shows "(\<exists>c \<in> set pc. inside r c) \<and> (\<exists>u \<in> set us. inside r u) \<and> fst r < snd r \<and> 60 * d \<le> snd r - fst r"
proof -
  from assms obtain c u where c: "c \<in> set pc" and u: "u \<in> set us"
    and r: "r = (max (fst c) (fst u), min (snd c) (snd u))"
    and ok: "max (fst c) (fst u) < min (snd c) (snd u)"
       "real_of_int (min (snd c) (snd u) - max (fst c) (fst u)) / 60 \<ge> real_of_int d"
    unfolding intersect_ranges_def
    by (fastforce simp: Let_def split: if_splits)
  have "inside r c" "inside r u" using r by (simp_all add: inside_def)
  moreover have "fst r < snd r" using ok r by simp
  moreover have "60 * d \<le> snd r - fst r"
  proof -
    from ok(2) have "real_of_int d * 60 \<le> real_of_int (snd r - fst r)"
      using r by (simp add: field_simps)
    then have "real_of_int (d * 60) \<le> real_of_int (snd r - fst r)" by simp
    then show ?thesis by linarith
  qed
  ultimately show ?thesis using c u by blast
qed

lemma inside_trans: "inside r c \<Longrightarrow> inside c d \<Longrightarrow> inside r d"
  by (auto simp: inside_def)

lemma intersect_users_member:
  "intersect_users d pc rest = Some res \<Longrightarrow> r \<in> set res \<Longrightarrow>
     (\<exists>c \<in> set pc. inside r c) \<and> (\<forall>us \<in> set rest. \<exists>u \<in> set us. inside r u)"
proof (induction d pc rest rule: intersect_users.induct)
  case (1 d pc)
  then show ?case by (auto simp: inside_def)
next
  case (2 d pc us rest)
  let ?n = "intersect_ranges d pc us"
  from "2.prems" have ne: "?n \<noteq> []" and rec: "intersect_users d ?n rest = Some res"
    by (auto simp: Let_def split: if_splits)
  from "2.IH"[OF refl ne rec "2.prems"(2)]
  obtain c where c: "c \<in> set ?n" "inside r c" and others: "\<forall>us \<in> set rest. \<exists>u \<in> set us. inside r u"
    by blast
  from intersect_ranges_member[OF c(1)] c(2) others show ?case
    by (auto intro: inside_trans)
qed



lemma to_common_slots_member:
  assumes "s \<in> set (to_common_slots d pc)"
  shows "to_range s \<in> set pc \<and> 60 * d \<le> end_time s - start_time s"
proof -
  from assms obtain a b where ab: "(a, b) \<in> set pc"
    and s: "s = \<lparr>start_time = a, end_time = b, duration_minutes = py_int (real_of_int (b - a) / 60)\<rparr>"
    and ok: "real_of_int (b - a) / 60 \<ge> real_of_int d"
    unfolding to_common_slots_def by (fastforce simp: Let_def split: if_splits)
  from ok have "real_of_int (d * 60) \<le> real_of_int (b - a)" by (simp add: field_simps)
  then have "60 * d \<le> b - a" by linarith
  with ab s show ?thesis by (simp add: to_range_def)
qed

lemma find_common_slots_member:
  assumes "s \<in> set (find_common_slots all_av d tz)"
  shows "(\<forall>(u, slots) \<in> set all_av. \<exists>x \<in> set slots. inside (to_range s) (to_range x))
         \<and> 60 * d \<le> end_time s - start_time s"
proof (cases all_av)
  case Nil
  with assms show ?thesis by (simp add: find_common_slots_def)
next
  case (Cons p ps)
  obtain u0 sl0 where p: "p = (u0, sl0)" by (cases p)
  let ?others = "map (\<lambda>(user_id, slots). map to_range slots) ps"
  from assms Cons p obtain pc where
    iu: "intersect_users d (map to_range sl0) ?others = Some pc"
    and s: "s \<in> set (to_common_slots d pc)"
    by (cases "intersect_users d (map to_range sl0) ?others") (auto simp: find_common_slots_def)
  from to_common_slots_member[OF s] have r: "to_range s \<in> set pc"
    and dur: "60 * d \<le> end_time s - start_time s" by simp_all
  from intersect_users_member[OF iu r]
  have first: "\<exists>c \<in> set (map to_range sl0). inside (to_range s) c"
    and rest: "\<forall>us \<in> set ?others. \<exists>c \<in> set us. inside (to_range s) c" by simp_all
  have "\<exists>x \<in> set slots. inside (to_range s) (to_range x)" if "(u, slots) \<in> set all_av" for u slots
  proof (cases "(u, slots) = p")
    case True
    with first p show ?thesis by auto
  next
    case False
    with that Cons have "(u, slots) \<in> set ps" by simp
    then have "map to_range slots \<in> set ?others" by force
    with rest have "\<exists>c \<in> set (map to_range slots). inside (to_range s) c" by blast
    then show ?thesis by (simp only: set_map bex_simps image_iff)
  qed
  with dur show ?thesis by blast
qed

lemma dict_set_subset: "set (dict_set d k v) \<subseteq> insert (k, v) (set d)"
  by (induction d k v rule: dict_set.induct) auto

lemma dict_set_keys: "fst ` set (dict_set d k v) = insert k (fst ` set d)"
  by (induction d k v rule: dict_set.induct) auto

lemma collect_availability_entries:
  assumes "collect_availability self us st en tz acc = Inr all_av"
    and "\<forall>(u, av) \<in> set acc. CalendarService_get_availability self u st en tz = Inr av"
  shows "(\<forall>(u, av) \<in> set all_av. CalendarService_get_availability self u st en tz = Inr av)
         \<and> set us \<subseteq> fst ` set all_av \<and> fst ` set acc \<subseteq> fst ` set all_av"
  using assms
proof (induction us arbitrary: acc)
  case Nil
  then show ?case by simp
next
  case (Cons u us)
  from Cons.prems(1) obtain av where
    av: "CalendarService_get_availability self u st en tz = Inr av"
    and rec: "collect_availability self us st en tz (dict_set acc u av) = Inr all_av"
    by (auto split: sum.splits)
  have inv: "\<forall>(u', av') \<in> set (dict_set acc u av). CalendarService_get_availability self u' st en tz = Inr av'"
    using dict_set_subset[of acc u av] Cons.prems(2) av by auto
  from Cons.IH[OF rec inv] show ?case
    by (auto simp: dict_set_keys)
qed

lemma get_common_availability_member:
  assumes "s \<in> set (get_common_availability self user_ids st en d tz)" and "u \<in> set user_ids"
  shows "\<exists>av x. CalendarService_get_availability self u st en tz = Inr av \<and> x \<in> set av
           \<and> inside (to_range s) (to_range x) \<and> 60 * d \<le> end_time s - start_time s"
proof -
  from assms(1) obtain all_av where
    coll: "collect_availability self user_ids st en tz [] = Inr all_av"
    and s: "s \<in> set (find_common_slots all_av d tz)"
    by (cases "collect_availability self user_ids st en tz []") (auto simp: get_common_availability_def)
  from collect_availability_entries[OF coll] assms(2)
  obtain av where av: "(u, av) \<in> set all_av"
    "CalendarService_get_availability self u st en tz = Inr av"
    by fastforce
  from find_common_slots_member[OF s] av(1) av(2) show ?thesis by fastforce
qed

lemma CalendarService_get_availability_slot:
  assumes "CalendarService_get_availability self u st en tz = Inr av" and "x \<in> set av"
  shows "\<exists>g busy. get_integration self u = Inr g \<and> freebusy g u st en tz = Inr busy
           \<and> x \<in> set (available_slots_from st en busy)"
  using assms
  by (auto simp: CalendarService_get_availability_def GoogleCalendarIntegration_get_availability_def
           split: sum.splits)

text \<open>
  Claim C2. Every slot returned by the availability aggregation
  (\<open>get_common_availability\<close>) is free of the busy intervals of every participant:
  when the free/busy query for a participant \<open>u\<close> of the request answered \<open>busy\<close>,
  no interval of \<open>busy\<close> overlaps the half-open window of the slot.
\<close>

theorem common_slots_avoid_busy_intervals:
  assumes "s \<in> set (get_common_availability self user_ids st en d tz)"
    and "u \<in> set user_ids"
    and "get_integration self u = Inr g"
    and "freebusy g u st en tz = Inr busy"
    and "b \<in> set busy"
  shows "\<not> overlaps s b"
proof -
  from get_common_availability_member[OF assms(1,2)] obtain av x where
    av: "CalendarService_get_availability self u st en tz = Inr av" and x: "x \<in> set av"
    and ins: "inside (to_range s) (to_range x)" by blast
  from CalendarService_get_availability_slot[OF av x] assms(3,4)
  have "x \<in> set (available_slots_from st en busy)" by auto
  from available_slots_from_member[OF this]
  have "is_available (start_time x) (end_time x) busy" by blast
  with assms(5) have "\<not> (start_time x < snd b \<and> fst b < end_time x)"
    by (auto simp: is_available_iff)
  with ins show ?thesis by (auto simp: inside_def to_range_def overlaps_def)
qed

theorem common_slots_avoid_busy_intervals_witness:
  "\<lparr>start_time = 32400, end_time = 34200, duration_minutes = 30\<rparr>
      \<in> set (get_common_availability example_calendar [''A'', ''B''] 32400 36000 30 ''UTC'')
   \<and> ''A'' \<in> set [''A'', ''B'']
   \<and> get_integration example_calendar ''A'' = Inr example_google
   \<and> freebusy example_google ''A'' 32400 36000 ''UTC'' = Inr [(36000, 39600)]
   \<and> (36000, 39600) \<in> set [(36000 :: int, 39600 :: int)]
   \<and> \<not> overlaps \<lparr>start_time = 32400, end_time = 34200, duration_minutes = 30\<rparr> (36000, 39600)"
proof -
  have h1: "\<lparr>start_time = 32400, end_time = 34200, duration_minutes = 30\<rparr>
      \<in> set (get_common_availability example_calendar [''A'', ''B''] 32400 36000 30 ''UTC'')"
    by code_simp
  have h2: "''A'' \<in> set [''A'', ''B'']" by simp
  have h3: "get_integration example_calendar ''A'' = Inr example_google"
    by (simp add: get_integration_def example_calendar_def)
  have h4: "freebusy example_google ''A'' 32400 36000 ''UTC'' = Inr [(36000, 39600)]"
    by (simp add: example_google_def)
  have h5: "(36000, 39600) \<in> set [(36000 :: int, 39600 :: int)]" by simp
  from common_slots_avoid_busy_intervals[OF h1 h2 h3 h4 h5] h1 h2 h3 h4 h5
  show ?thesis by blast
qed

text \<open>
  Claim C3, as the code has it. When the availability of a participant cannot be
  retrieved (no provider is set or registered for the participant, or the free/busy
  query raises), \<open>get_common_availability\<close> returns the empty list, and so does the
  scheduler's \<open>find_available_slots\<close>: no error is raised, and no slot computed from
  the other participants is returned.
\<close>

theorem fetch_failure_gives_empty_list:
  assumes "u \<in> set user_ids"
    and "(\<exists>e. get_integration self u = Inl e)
         \<or> (\<exists>g e. get_integration self u = Inr g \<and> freebusy g u st en tz = Inl e)"
  shows "get_common_availability self user_ids st en d tz = []
         \<and> ConstraintBasedScheduler_find_available_slots amb
              (CalendarService_interface self pc pd) user_ids d (st, en) cons prefs tz m = []"
proof -
  have "s \<notin> set (get_common_availability self user_ids st en d tz)" for s
  proof
    assume "s \<in> set (get_common_availability self user_ids st en d tz)"
    from get_common_availability_member[OF this assms(1)] obtain av x where
      av: "CalendarService_get_availability self u st en tz = Inr av" and x: "x \<in> set av"
      by blast
    from assms(2) av x show False
      by (auto simp: CalendarService_get_availability_def
            GoogleCalendarIntegration_get_availability_def split: sum.splits)
  qed
  then have "get_common_availability self user_ids st en d tz = []"
    by (cases "get_common_availability self user_ids st en d tz") auto
  then show ?thesis
    by (simp add: ConstraintBasedScheduler_find_available_slots_def CalendarService_interface_def)
qed

theorem fetch_failure_gives_empty_list_witness:
  "''C'' \<in> set [''A'', ''C'']
   \<and> ((\<exists>e. get_integration example_calendar ''C'' = Inl e)
       \<or> (\<exists>g e. get_integration example_calendar ''C'' = Inr g
                 \<and> freebusy g ''C'' 32400 61200 ''UTC'' = Inl e))
   \<and> get_common_availability example_calendar [''A'', ''C''] 32400 61200 30 ''UTC'' = []"
proof -
  have h1: "''C'' \<in> set [''A'', ''C'']" by simp
  have "get_integration example_calendar ''C'' = Inr example_google
        \<and> freebusy example_google ''C'' 32400 61200 ''UTC'' = Inl (ApiError ''calendar not reachable'')"
    by (simp add: get_integration_def example_calendar_def example_google_def)
  then have h2: "(\<exists>e. get_integration example_calendar ''C'' = Inl e)
       \<or> (\<exists>g e. get_integration example_calendar ''C'' = Inr g
                 \<and> freebusy g ''C'' 32400 61200 ''UTC'' = Inl e)"
    by blast
  from fetch_failure_gives_empty_list[OF h1 h2] h1 h2 show ?thesis by blast
qed

text \<open>
  Claim C3 as stated fails: the request in which the query for \<open>C\<close> raises and the
  request in which \<open>D\<close> is simply busy all day end alike, with the empty list.
\<close>

theorem fetch_failure_not_distinguished_counterexample:
  "freebusy example_google ''C'' 32400 61200 ''UTC'' = Inl (ApiError ''calendar not reachable'')
   \<and> freebusy example_google ''D'' 32400 61200 ''UTC'' = Inr [(0, 86400)]
   \<and> get_common_availability example_calendar [''A'', ''C''] 32400 61200 30 ''UTC'' = []
   \<and> get_common_availability example_calendar [''A'', ''D''] 32400 61200 30 ''UTC'' = []"
  by code_simp

section \<open>Properties of the CandidateSchedulingService\<close>

lemma validate_token_valid:
  "tokens st token = Some data \<Longrightarrow> \<not> now (clock w) > td_expiration data \<Longrightarrow>
     validate_token w st token = Inr data"
  by (simp add: validate_token_def)

lemma validate_token_unknown:
  "tokens st token = None \<Longrightarrow> validate_token w st token = Inl (ValueError ''Invalid token'')"
  by (simp add: validate_token_def)

lemma confirm_slot_unknown:
  "tokens st token = None \<Longrightarrow>
     confirm_slot w token sid st = (Inl (ValueError ''Invalid token''), st)"
  by (simp add: confirm_slot_def validate_token_unknown)

lemma confirm_slot_success:
  assumes "confirm_slot w token sid st = (Inr iv, st')"
  shows "tokens st' = (tokens st)(token := None)
         \<and> available_slots st' = (available_slots st)(token := None)"
  using assms
  by (auto simp: confirm_slot_def split: sum.splits option.splits prod.splits)

lemma confirm_slot_tokens:
  "tokens st token = None \<Longrightarrow> tokens (snd (confirm_slot w t sid st)) token = None"
  by (auto simp: confirm_slot_def split: sum.splits option.splits prod.splits)

lemma get_available_slots_tokens:
  "tokens (snd (get_available_slots w t st)) = tokens st"
  by (auto simp: get_available_slots_def Let_def split: sum.splits)

lemma perform_keeps_unknown:
  "tokens st token = None \<Longrightarrow> \<not> issues r token \<Longrightarrow> tokens (perform r st) token = None"
  by (cases r) (auto simp: generate_scheduling_token_def Let_def confirm_slot_tokens
      get_available_slots_tokens)

lemma fold_perform_keeps_unknown:
  "tokens st token = None \<Longrightarrow> \<forall>r \<in> set rs. \<not> issues r token \<Longrightarrow>
     tokens (fold perform rs st) token = None"
  by (induction rs arbitrary: st) (auto simp: perform_keeps_unknown)

text \<open>
  Claim C10. A confirmation with a token that is valid and not expired, but for which
  no slot list is stored, fails with "No available slots for this token"; the state of
  the service (tokens, stored slots, calls made to the calendar and the communication
  service) is unchanged, so no interview is scheduled.
\<close>

theorem confirm_slot_without_stored_slots:
  assumes "tokens st token = Some data"
    and "\<not> now (clock w) > td_expiration data"
    and "available_slots st token = None"
  shows "confirm_slot w token sid st
           = (Inl (ValueError ''No available slots for this token''), st)"
  using assms by (simp add: confirm_slot_def validate_token_valid)

theorem confirm_slot_without_stored_slots_witness:
  "tokens issued_state ''token_0_100000''
      = Some \<lparr>td_candidate_id = ''bob'', td_job_id = ''job_1'', td_expiration = 1000,
              td_created_at = 0\<rparr>
   \<and> \<not> now (clock example_world) > 1000
   \<and> available_slots issued_state ''token_0_100000'' = None
   \<and> confirm_slot example_world ''token_0_100000'' ''slot_0_1000'' issued_state
        = (Inl (ValueError ''No available slots for this token''), issued_state)"
proof -
  have h1: "tokens issued_state ''token_0_100000''
      = Some \<lparr>td_candidate_id = ''bob'', td_job_id = ''job_1'', td_expiration = 1000,
              td_created_at = 0\<rparr>"
    by (simp add: issued_state_def generate_scheduling_token_def example_world_def initial_state_def Let_def)
  have h2: "\<not> now (clock example_world) > td_expiration \<lparr>td_candidate_id = ''bob'', td_job_id = ''job_1'', td_expiration = 1000,
              td_created_at = 0\<rparr>"
    by (simp add: example_world_def)
  have h3: "available_slots issued_state ''token_0_100000'' = None"
    by (simp add: issued_state_def generate_scheduling_token_def example_world_def initial_state_def Let_def)
  from confirm_slot_without_stored_slots[OF h1 h2 h3] h1 h2 h3 show ?thesis by simp
qed

text \<open>
  Claim C1, as the code has it. A successful confirmation deletes the token and its
  stored slots. Whatever requests follow (short of one that stores a new token under
  the same string), a confirmation with that token fails with "Invalid token", the
  error of a token that was never issued, and leaves the state of the service
  unchanged: no event is created, no interview is scheduled a second time.
\<close>

theorem confirm_slot_at_most_once:
  assumes "confirm_slot w token sid st = (Inr iv, st')"
    and "\<forall>r \<in> set rs. \<not> issues r token"
  shows "tokens st' token = None \<and> available_slots st' token = None
         \<and> confirm_slot w' token sid' (fold perform rs st')
             = (Inl (ValueError ''Invalid token''), fold perform rs st')"
proof -
  from confirm_slot_success[OF assms(1)]
  have gone: "tokens st' token = None" "available_slots st' token = None" by simp_all
  from fold_perform_keeps_unknown[OF gone(1) assms(2)]
  have "tokens (fold perform rs st') token = None" .
  from confirm_slot_unknown[OF this] gone show ?thesis by simp
qed

lemma offered_tokens: "tokens offered_state ''token_0_100000''
      = Some \<lparr>td_candidate_id = ''bob'', td_job_id = ''job_1'', td_expiration = 1000,
              td_created_at = 0\<rparr>"
  by code_simp

theorem confirm_slot_at_most_once_witness:
  "map_sum id iv_status (fst (confirm_slot example_world ''token_0_100000'' ''slot_0_1000'' offered_state))
      = Inr ''scheduled''
   \<and> \<not> issues (GetAvailableSlots later_world ''token_0_100000'') ''token_0_100000''
   \<and> \<not> issues (GenerateToken later_world ''eve'' ''job_2'' 2000) ''token_0_100000''
   \<and> fst (confirm_slot later_world ''token_0_100000'' ''slot_0_1001''
        (fold perform [GetAvailableSlots later_world ''token_0_100000'',
                       GenerateToken later_world ''eve'' ''job_2'' 2000] confirmed_state))
        = Inl (ValueError ''Invalid token'')"
proof -
  have ok: "map_sum id iv_status (fst (confirm_slot example_world ''token_0_100000'' ''slot_0_1000'' offered_state))
      = Inr ''scheduled''"
    by code_simp
  obtain iv where h1: "confirm_slot example_world ''token_0_100000'' ''slot_0_1000'' offered_state
      = (Inr iv, confirmed_state)"
  proof -
    from ok obtain iv where
      "fst (confirm_slot example_world ''token_0_100000'' ''slot_0_1000'' offered_state) = Inr iv"
      by (cases "fst (confirm_slot example_world ''token_0_100000'' ''slot_0_1000'' offered_state)") auto
    then have "confirm_slot example_world ''token_0_100000'' ''slot_0_1000'' offered_state
      = (Inr iv, confirmed_state)"
      by (simp add: confirmed_state_def prod_eq_iff)
    then show ?thesis by (rule that)
  qed
  have h2: "\<forall>r \<in> set [GetAvailableSlots later_world ''token_0_100000'',
                    GenerateToken later_world ''eve'' ''job_2'' 2000].
          \<not> issues r ''token_0_100000''"
    by (simp add: later_world_def)
  have h3: "\<not> issues (GetAvailableSlots later_world ''token_0_100000'') ''token_0_100000''
      \<and> \<not> issues (GenerateToken later_world ''eve'' ''job_2'' 2000) ''token_0_100000''"
    by (simp add: later_world_def)
  from confirm_slot_at_most_once[OF h1 h2, of later_world "''slot_0_1001''"] ok h3
  show ?thesis by simp
qed

text \<open>
  Claim C1 as stated fails on the name of the error: the service keeps no record of a
  consumed token. After the successful confirmation the token is absent from the
  store, and a second confirmation is answered exactly like a confirmation with a
  token that was never issued.
\<close>

theorem second_confirm_is_invalid_token_counterexample:
  "map_sum id iv_status
      (fst (confirm_slot example_world ''token_0_100000'' ''slot_0_1000'' offered_state))
      = Inr ''scheduled''
   \<and> tokens confirmed_state ''token_0_100000'' = None
   \<and> fst (confirm_slot example_world ''token_0_100000'' ''slot_0_1001'' confirmed_state)
        = Inl (ValueError ''Invalid token'')
   \<and> fst (confirm_slot example_world ''token_0_100000'' ''slot_0_1001'' initial_state)
        = Inl (ValueError ''Invalid token'')"
  by code_simp

section \<open>Reading the slots of a token\<close>

lemma get_available_slots_valid:
  assumes "tokens st token = Some data" and "\<not> now (clock w) > td_expiration data"
  shows "get_available_slots w token st =
     (let slots = InterviewScheduler_find_available_slots w (td_job_id data) (td_candidate_id data)
                    [''interviewer_11111'', ''interviewer_22222''] 60
                    (now (clock w) + 86400, now (clock w) + 864000) None ''UTC'' 10
      in (Inr slots, st\<lparr>available_slots := (available_slots st)(token \<mapsto> slots)\<rparr>))"
  using assms by (simp add: get_available_slots_def validate_token_valid Let_def)

text \<open>
  Claim C8, as the code has it. For a valid, unexpired token every call of
  \<open>get_available_slots\<close> computes the slot list anew from the calendar, the clock and
  the generated identifiers of that call: the answer does not depend on what is
  stored for the token. The answer replaces the stored list of the token, the lists
  of other tokens and the tokens themselves are untouched, and a successful
  confirmation deletes the stored list.
\<close>

theorem get_available_slots_recomputes:
  assumes "tokens st token = Some data" and "\<not> now (clock w) > td_expiration data"
  shows "fst (get_available_slots w token (st\<lparr>available_slots := cache\<rparr>))
           = fst (get_available_slots w token st)
     \<and> fst (get_available_slots w token st)
           = Inr (InterviewScheduler_find_available_slots w (td_job_id data) (td_candidate_id data)
                    [''interviewer_11111'', ''interviewer_22222''] 60
                    (now (clock w) + 86400, now (clock w) + 864000) None ''UTC'' 10)
     \<and> map_option Inr (available_slots (snd (get_available_slots w token st)) token)
           = Some (fst (get_available_slots w token st))
     \<and> (\<forall>t. t \<noteq> token \<longrightarrow>
           available_slots (snd (get_available_slots w token st)) t = available_slots st t)
     \<and> tokens (snd (get_available_slots w token st)) = tokens st
     \<and> (\<forall>sid iv st'. confirm_slot w token sid st = (Inr iv, st')
           \<longrightarrow> available_slots st' token = None)"
proof -
  have c: "tokens (st\<lparr>available_slots := cache\<rparr>) token = Some data"
    using assms(1) by simp
  show ?thesis
    using confirm_slot_success
    by (simp add: get_available_slots_valid[OF assms] get_available_slots_valid[OF c assms(2)]
          Let_def)
qed

theorem get_available_slots_recomputes_witness:
  "tokens offered_state ''token_0_100000''
      = Some \<lparr>td_candidate_id = ''bob'', td_job_id = ''job_1'', td_expiration = 1000,
              td_created_at = 0\<rparr>
   \<and> \<not> now (clock later_world) > 1000
   \<and> fst (get_available_slots later_world ''token_0_100000''
             (offered_state\<lparr>available_slots := Map.empty\<rparr>))
        = fst (get_available_slots later_world ''token_0_100000'' offered_state)"
proof -
  have h1: "tokens offered_state ''token_0_100000''
      = Some \<lparr>td_candidate_id = ''bob'', td_job_id = ''job_1'', td_expiration = 1000,
              td_created_at = 0\<rparr>"
    by (rule offered_tokens)
  have h2: "\<not> now (clock later_world) > td_expiration \<lparr>td_candidate_id = ''bob'',
      td_job_id = ''job_1'', td_expiration = 1000, td_created_at = 0\<rparr>"
    by (simp add: later_world_def)
  from get_available_slots_recomputes[OF h1 h2, of Map.empty] h1 h2
  show ?thesis by simp
qed

text \<open>
  Claim C8 as stated fails: the token is still valid and a list is stored for it, yet
  the second call, made five seconds later when one slot has gone from the calendar,
  returns a new list with new slot identifiers and stores it in place of the first.
\<close>

theorem second_read_is_not_the_stored_list_counterexample:
  "map_option (map slot_id) (available_slots offered_state ''token_0_100000'')
      = Some [''slot_0_1000'', ''slot_0_1001'']
   \<and> \<not> now (clock later_world)
         > td_expiration \<lparr>td_candidate_id = ''bob'', td_job_id = ''job_1'',
                           td_expiration = 1000, td_created_at = 0\<rparr>
   \<and> map_sum id (map slot_id)
        (fst (get_available_slots later_world ''token_0_100000'' offered_state))
      = Inr [''slot_5_2000'']
   \<and> map_option (map slot_id)
        (available_slots (snd (get_available_slots later_world ''token_0_100000'' offered_state))
           ''token_0_100000'')
      = Some [''slot_5_2000'']"
  by code_simp

section \<open>Scheduling and cancelling\<close>

lemma delete_events_trace:
  "delete_events cal events trace
     = trace @ map (\<lambda>(participant_id, event_data). DeleteEvent participant_id (event_id event_data)) events"
  unfolding delete_events_def
  by (induction events arbitrary: trace) (auto split: sum.splits)

text \<open>
  Claim C9, as the code has it. \<open>cancel_interview\<close> does not retrieve the interview it
  is given the identifier of. Whatever was scheduled, it invokes \<open>delete_event\<close> once
  for every entry of the event map of its built-in record (candidate_67890 with
  event_1, interviewer_11111 with event_2, interviewer_22222 with event_3), whether or
  not the earlier deletions fail, then sends the cancellation notification if a
  communication service is configured, and returns that record with the given
  identifier and status "cancelled".
\<close>

theorem cancel_interview_deletes_simulated_events:
  "snd (cancel_interview w interview_id reason trace)
     = trace @ [DeleteEvent ''candidate_67890'' ''event_1'',
                DeleteEvent ''interviewer_11111'' ''event_2'',
                DeleteEvent ''interviewer_22222'' ''event_3'']
         @ (if has_communication_service w
            then [SendCancellationNotification interview_id reason] else [])
   \<and> iv_status (fst (cancel_interview w interview_id reason trace)) = ''cancelled''
   \<and> iv_id (fst (cancel_interview w interview_id reason trace)) = interview_id
   \<and> iv_events (fst (cancel_interview w interview_id reason trace))
        = iv_events (simulated_interview interview_id)
   \<and> (\<forall>p \<in> set (iv_events (fst (cancel_interview w interview_id reason trace))).
         DeleteEvent (fst p) (event_id (snd p))
           \<in> set (snd (cancel_interview w interview_id reason trace)))"
  by (simp add: cancel_interview_def delete_events_trace simulated_interview_def Let_def)

theorem cancel_interview_deletes_simulated_events_witness:
  "snd (cancel_interview example_world ''interview_0_1000'' ''no longer needed'' [])
     = [DeleteEvent ''candidate_67890'' ''event_1'',
        DeleteEvent ''interviewer_11111'' ''event_2'',
        DeleteEvent ''interviewer_22222'' ''event_3'']
   \<and> iv_status (fst (cancel_interview example_world ''interview_0_1000'' ''no longer needed'' []))
        = ''cancelled''"
  using cancel_interview_deletes_simulated_events
          [of example_world "''interview_0_1000''" "''no longer needed''" "[]"]
  by (simp add: example_world_def)

text \<open>
  Claim C9 as stated fails: an interview is scheduled for candidate \<open>bob\<close> with a
  calendar event recorded for each of its three participants; cancelling it by its
  identifier deletes the three events of the built-in record and none of the recorded
  ones.
\<close>

theorem cancel_misses_recorded_events_counterexample:
  "iv_id (fst (schedule_interview example_world ''job_1'' ''bob'' [''alice'', ''carol'']
                 381600 385200 ''Room 1'' ''Technical Interview'' [] ''UTC'' []))
     = ''interview_0_1000''
   \<and> iv_events (fst (schedule_interview example_world ''job_1'' ''bob'' [''alice'', ''carol'']
                 381600 385200 ''Room 1'' ''Technical Interview'' [] ''UTC'' []))
     = [(''alice'', \<lparr>event_id = ''event_of_alice''\<rparr>),
        (''carol'', \<lparr>event_id = ''event_of_carol''\<rparr>),
        (''bob'', \<lparr>event_id = ''event_of_bob''\<rparr>)]
   \<and> snd (cancel_interview example_world ''interview_0_1000'' ''no longer needed''
            (snd (schedule_interview example_world ''job_1'' ''bob'' [''alice'', ''carol'']
                 381600 385200 ''Room 1'' ''Technical Interview'' [] ''UTC'' [])))
     = snd (schedule_interview example_world ''job_1'' ''bob'' [''alice'', ''carol'']
                 381600 385200 ''Room 1'' ''Technical Interview'' [] ''UTC'' [])
       @ [DeleteEvent ''candidate_67890'' ''event_1'',
          DeleteEvent ''interviewer_11111'' ''event_2'',
          DeleteEvent ''interviewer_22222'' ''event_3'']
   \<and> DeleteEvent ''alice'' ''event_of_alice''
       \<notin> set (snd (cancel_interview example_world ''interview_0_1000'' ''no longer needed''
            (snd (schedule_interview example_world ''job_1'' ''bob'' [''alice'', ''carol'']
                 381600 385200 ''Room 1'' ''Technical Interview'' [] ''UTC'' []))))"
  by code_simp

section \<open>Scoring\<close>

lemma fold_weighted_score:
  "fst (fold (\<lambda>c (acc, d). (let sc = evaluate c amb s ctx
                              in (acc + sc * weight c, dict_set d (class_name c) sc))) cs (a, d0))
     = a + (\<Sum>c\<leftarrow>cs. evaluate c amb s ctx * weight c)"
  by (induction cs arbitrary: a d0) (simp_all add: Let_def add.assoc)

lemma score_score_slot:
  "score (score_slot amb cs ctx s)
     = (if (\<Sum>c\<leftarrow>cs. weight c) > 0
        then (\<Sum>c\<leftarrow>cs. evaluate c amb s ctx * weight c) / (\<Sum>c\<leftarrow>cs. weight c)
        else 1)"
proof -
  obtain ws d where f: "fold (\<lambda>c (acc, d). (let sc = evaluate c amb s ctx
                              in (acc + sc * weight c, dict_set d (class_name c) sc))) cs (0, [])
      = (ws, d)" by (cases "fold (\<lambda>c (acc, d). (let sc = evaluate c amb s ctx
                              in (acc + sc * weight c, dict_set d (class_name c) sc))) cs (0::real, [])")
  from fold_weighted_score[of amb s ctx cs 0 "[]"] f
  have "ws = (\<Sum>c\<leftarrow>cs. evaluate c amb s ctx * weight c)" by simp
  with f show ?thesis by (simp add: score_slot_def Let_def)
qed

lemma sum_list_mset_cong:
  fixes f :: "'a \<Rightarrow> real"
  assumes "mset xs = mset ys"
  shows "sum_list (map f xs) = sum_list (map f ys)"
proof -
  have "sum_list (map f xs) = sum_mset (image_mset f (mset xs))"
    by (simp add: sum_mset_sum_list[symmetric])
  also have "\<dots> = sum_mset (image_mset f (mset ys))" using assms by simp
  also have "\<dots> = sum_list (map f ys)" by (simp add: sum_mset_sum_list[symmetric])
  finally show ?thesis .
qed

text \<open>
  In exact arithmetic the score attached to a slot is the weighted average
  \<open>(\<Sum> s\<^sub>i * w\<^sub>i) / (\<Sum> w\<^sub>i)\<close> of the constraints' scores when the total weight is
  positive, it is 1 when the total weight is zero, and it is the same for every
  permutation of the constraint list. The code computes with doubles, in the order of
  the list, so that its result agrees with this value up to rounding only and can
  change in the last digit when the list is permuted; rounding is not represented in
  \<open>score_slot\<close>.
\<close>

lemma exact_weighted_average:
  "(0 < (\<Sum>c\<leftarrow>cs. weight c) \<longrightarrow>
      score (score_slot amb cs ctx s)
        = (\<Sum>c\<leftarrow>cs. evaluate c amb s ctx * weight c) / (\<Sum>c\<leftarrow>cs. weight c))
   \<and> ((\<Sum>c\<leftarrow>cs. weight c) = 0 \<longrightarrow> score (score_slot amb cs ctx s) = 1)
   \<and> (mset cs' = mset cs \<longrightarrow>
        score (score_slot amb cs' ctx s) = score (score_slot amb cs ctx s))"
proof (intro conjI impI)
  assume "mset cs' = mset cs"
  then have "(\<Sum>c\<leftarrow>cs'. weight c) = (\<Sum>c\<leftarrow>cs. weight c)"
    and "(\<Sum>c\<leftarrow>cs'. evaluate c amb s ctx * weight c) = (\<Sum>c\<leftarrow>cs. evaluate c amb s ctx * weight c)"
    by (rule sum_list_mset_cong)+
  then show "score (score_slot amb cs' ctx s) = score (score_slot amb cs ctx s)"
    by (simp add: score_score_slot)
qed (simp_all add: score_score_slot)

section \<open>Order of the common slots\<close>












section \<open>Ranking\<close>






lemma set_slice_to: "set (slice_to n xs) \<subseteq> set xs"
  by (auto simp: slice_to_def dest: in_set_takeD)

lemma start_time_score_slot [simp]:
  "start_time (score_slot amb cs ctx s) = start_time s"
  "end_time (score_slot amb cs ctx s) = end_time s"
  "duration_minutes (score_slot amb cs ctx s) = duration_minutes s"
  by (simp_all add: score_slot_def Let_def split: prod.splits)



lemma find_available_slots_member:
  assumes "r \<in> set (ConstraintBasedScheduler_find_available_slots amb cal participants d date_range
                       cons prefs tz m)"
  shows "\<exists>s \<in> set (common_availability cal participants (fst date_range) (snd date_range) d tz).
           start_time r = start_time s \<and> end_time r = end_time s"
proof -
  from assms obtain ctx where
    "r \<in> set (slice_to m (sorted_by_score_reverse
        (score_slots amb (common_availability cal participants (fst date_range) (snd date_range) d tz)
             (prepare_constraints cons prefs) ctx)))"
    by (auto simp: ConstraintBasedScheduler_find_available_slots_def Let_def split: if_splits)
  then have "r \<in> set (score_slots amb (common_availability cal participants (fst date_range) (snd date_range) d tz)
             (prepare_constraints cons prefs) ctx)"
    using set_slice_to by (fastforce simp: sorted_by_score_reverse_def)
  then show ?thesis by (auto simp: score_slots_def)
qed



section \<open>Bounds of the returned slots\<close>

lemma get_common_availability_within_request:
  assumes "s \<in> set (get_common_availability self user_ids st en d tz)"
  shows "within_request st en d s"
proof -
  from assms have "user_ids \<noteq> []"
    by (auto simp: get_common_availability_def find_common_slots_def)
  then obtain u where u: "u \<in> set user_ids" by (cases user_ids) auto
  from get_common_availability_member[OF assms u] obtain av x where
    av: "CalendarService_get_availability self u st en tz = Inr av" and x: "x \<in> set av"
    and ins: "inside (to_range s) (to_range x)"
    and dur: "60 * d \<le> end_time s - start_time s" by blast
  from CalendarService_get_availability_slot[OF av x] obtain busy where
    "x \<in> set (available_slots_from st en busy)" by blast
  from available_slots_from_member[OF this] ins dur show ?thesis
    by (auto simp: inside_def to_range_def within_request_def)
qed

lemma InterviewScheduler_find_available_slots_member:
  assumes "e \<in> set (InterviewScheduler_find_available_slots w job candidate interviewers d
                       date_range prefs tz m)"
  shows "\<exists>r \<in> set (ConstraintBasedScheduler_find_available_slots (clock w) (calendar w)
                      (interviewers @ (if candidate \<noteq> [] then [candidate] else []))
                      d date_range None prefs tz m).
           start_time e = start_time r \<and> end_time e = end_time r"
proof -
  from assms obtain k r where
    "(k, r) \<in> set (enumerate 0 (ConstraintBasedScheduler_find_available_slots (clock w) (calendar w)
                      (interviewers @ (if candidate \<noteq> [] then [candidate] else []))
                      d date_range None prefs tz m))"
    and e: "e = enrich w job candidate interviewers (k, r)"
    by (auto simp: InterviewScheduler_find_available_slots_def Let_def)
  then have "r \<in> set (ConstraintBasedScheduler_find_available_slots (clock w) (calendar w)
                      (interviewers @ (if candidate \<noteq> [] then [candidate] else []))
                      d date_range None prefs tz m)"
    by (auto simp: in_set_enumerate_eq)
  with e show ?thesis by (auto simp: enrich_def)
qed

text \<open>
  On the Google integration, whose loop runs while
  \<open>current_time + slot_duration <= end_time\<close>, every slot returned for a request with
  range \<open>[st, en]\<close> and duration \<open>d\<close> minutes, by the availability aggregation and by
  the interview scheduler's \<open>find_available_slots\<close> on top of it, starts no earlier
  than \<open>st\<close>, ends no later than \<open>en\<close> and lasts at least \<open>d\<close> minutes.
\<close>

lemma google_slots_within_request:
  assumes "calendar w = CalendarService_interface self pc pd"
  shows "(\<forall>s \<in> set (get_common_availability self user_ids st en d tz). within_request st en d s)
     \<and> (\<forall>e \<in> set (InterviewScheduler_find_available_slots w job candidate interviewers d
                       (st, en) prefs tz m). within_request st en d e)"
proof (intro conjI ballI)
  fix s assume "s \<in> set (get_common_availability self user_ids st en d tz)"
  then show "within_request st en d s" by (rule get_common_availability_within_request)
next
  fix e
  assume "e \<in> set (InterviewScheduler_find_available_slots w job candidate interviewers d
                       (st, en) prefs tz m)"
  from InterviewScheduler_find_available_slots_member[OF this] obtain r where
    r: "r \<in> set (ConstraintBasedScheduler_find_available_slots (clock w) (calendar w)
                      (interviewers @ (if candidate \<noteq> [] then [candidate] else []))
                      d (st, en) None prefs tz m)"
    and er: "start_time e = start_time r" "end_time e = end_time r" by blast
  from find_available_slots_member[OF r] assms obtain s where
    "s \<in> set (get_common_availability self
                 (interviewers @ (if candidate \<noteq> [] then [candidate] else [])) st en d tz)"
    and rs: "start_time r = start_time s" "end_time r = end_time s"
    by (auto simp: CalendarService_interface_def)
  from get_common_availability_within_request[OF this(1)] er rs
  show "within_request st en d e" by (simp add: within_request_def)
qed

section \<open>Durations above thirty minutes\<close>

lemma common_slot_at_most_thirty_minutes:
  assumes "s \<in> set (get_common_availability self user_ids st en d tz)"
  shows "end_time s - start_time s \<le> 1800 \<and> 60 * d \<le> end_time s - start_time s"
proof -
  from assms have "user_ids \<noteq> []"
    by (auto simp: get_common_availability_def find_common_slots_def)
  then obtain u where u: "u \<in> set user_ids" by (cases user_ids) auto
  from get_common_availability_member[OF assms u] obtain av x where
    av: "CalendarService_get_availability self u st en tz = Inr av" and x: "x \<in> set av"
    and ins: "inside (to_range s) (to_range x)"
    and dur: "60 * d \<le> end_time s - start_time s" by blast
  from CalendarService_get_availability_slot[OF av x] obtain busy where
    "x \<in> set (available_slots_from st en busy)" by blast
  from available_slots_from_member[OF this] ins dur show ?thesis
    by (auto simp: inside_def to_range_def slot_duration_def)
qed

lemma no_common_slot_above_thirty_minutes:
  assumes "30 < d"
  shows "get_common_availability self user_ids st en d tz = []"
proof -
  have "s \<notin> set (get_common_availability self user_ids st en d tz)" for s
    using common_slot_at_most_thirty_minutes[of s self user_ids st en d tz] assms by auto
  then show ?thesis by (cases "get_common_availability self user_ids st en d tz") auto
qed

text \<open>
  Claim C4 at its scenario: participant A is busy from 10:00 to 11:00 and B from 14:00
  to 15:00, the window is 9:00 to 17:00 of one working day and the duration is sixty
  minutes. The claim expects the six hourly windows from 9:00, 11:00, 12:00, 13:00,
  15:00 and 16:00. The code cuts the free time of each participant into slots of thirty
  minutes (those of A before 10:00 are shown), never joins neighbouring slots, and so
  returns no slot at all, from the aggregation and from the scheduler.
\<close>

theorem hourly_scenario_returns_no_slot:
  "freebusy example_google ''A'' 32400 61200 ''UTC'' = Inr [(36000, 39600)]
   \<and> freebusy example_google ''B'' 32400 61200 ''UTC'' = Inr [(50400, 54000)]
   \<and> map to_range (GoogleCalendarIntegration_get_availability example_google ''A''
                      32400 36000 ''UTC'')
        = [(32400, 34200), (34200, 36000)]
   \<and> get_common_availability example_calendar [''A'', ''B''] 32400 61200 60 ''UTC'' = []
   \<and> ConstraintBasedScheduler_find_available_slots example_ambient example_service
        [''A'', ''B''] 60 (32400, 61200) None None ''UTC'' 10 = []"
  by code_simp

text \<open>
  Claim C5 fails on the Microsoft integration. For the range from 9:00 to 9:45 of a
  Thursday and a user who is free all the time, its \<open>get_availability\<close>, which never
  compares the end of a slot with the end of the range, returns the slot from 9:30 to
  10:00; with that user as the only participant \<open>_find_common_slots\<close> hands the slot
  on for a duration of thirty minutes, and it ends a quarter of an hour after the
  range. The Google integration, asked for the same range, stops at 9:30.
\<close>

theorem microsoft_slot_ends_after_range:
  "MicrosoftCalendarIntegration_get_availability example_ambient example_microsoft ''M''
       32400 35100 ''UTC''
     = [\<lparr>start_time = 32400, end_time = 34200, duration_minutes = 30\<rparr>,
        \<lparr>start_time = 34200, end_time = 36000, duration_minutes = 30\<rparr>]
   \<and> find_common_slots
        [(''M'', MicrosoftCalendarIntegration_get_availability example_ambient example_microsoft
                   ''M'' 32400 35100 ''UTC'')] 30 ''UTC''
     = [\<lparr>start_time = 32400, end_time = 34200, duration_minutes = 30\<rparr>,
        \<lparr>start_time = 34200, end_time = 36000, duration_minutes = 30\<rparr>]
   \<and> \<not> within_request 32400 35100 30
          \<lparr>start_time = 34200, end_time = 36000, duration_minutes = 30\<rparr>
   \<and> GoogleCalendarIntegration_get_availability example_google ''A'' 32400 35100 ''UTC''
     = [\<lparr>start_time = 32400, end_time = 34200, duration_minutes = 30\<rparr>]"
  by code_simp

end
